theory Spec2Isabelle
  imports Main
begin

text \<open>
  The download providers of the bot: \<^verbatim>\<open>ShrutiAPIPlatform\<close> and \<^verbatim>\<open>YoutubifyPlatform\<close>,
  each with its \<^verbatim>\<open>Download\<close> into the cache directory \<^verbatim>\<open>downloads\<close>. The files of
  the cache and the log of network traffic are an explicit state; what the servers, the
  file system and the context answer during a call is an input of the call.
\<close>

section \<open>Go errors\<close>

text \<open>
  An \<^verbatim>\<open>error\<close> value of the program. The two context errors are the sentinels
  \<^verbatim>\<open>context.Canceled\<close> and \<^verbatim>\<open>context.DeadlineExceeded\<close>; \<open>ErrorsNew\<close> is
  \<^verbatim>\<open>errors.New\<close>; \<open>ErrorfStatus\<close> is \<^verbatim>\<open>fmt.Errorf\<close> with a status verb
  (no wrapping); \<open>ErrorfWrap\<close> is \<^verbatim>\<open>fmt.Errorf("...: %w", err)\<close>; \<open>LibError\<close> is any
  error produced by the operating system or a library; \<open>LibWrap\<close> is a library error with
  an \<^verbatim>\<open>Unwrap\<close> method, such as the \<^verbatim>\<open>*url.Error\<close> of \<^verbatim>\<open>net/http\<close>.
\<close>

datatype error =
    ContextCanceled
  | ContextDeadlineExceeded
  | ErrorsNew string
  | ErrorfStatus string nat
  | ErrorfWrap string error
  | LibError string
  | LibWrap string error

text \<open>\<^verbatim>\<open>errors.Is(err, target)\<close>: walks the chain of wrapped errors.\<close>

fun errors_Is :: "error \<Rightarrow> error \<Rightarrow> bool" where
  "errors_Is (ErrorfWrap m e) t = (ErrorfWrap m e = t \<or> errors_Is e t)"
| "errors_Is (LibWrap m e) t = (LibWrap m e = t \<or> errors_Is e t)"
| "errors_Is e t = (e = t)"

section \<open>The world: files and network traffic\<close>

type_synonym filesystem = "string \<rightharpoonup> string"

datatype net_event =
    ControlGet string string string
  | DataGet string
  | BodyRead

record world =
  fs :: filesystem
  net :: "net_event list"

text \<open>\<^verbatim>\<open>os.Remove\<close>, whose error the program ignores.\<close>

definition os_Remove :: "string \<Rightarrow> world \<Rightarrow> world" where
  "os_Remove p w = w\<lparr>fs := (fs w)(p := None)\<rparr>"

text \<open>\<^verbatim>\<open>os.Create\<close> on success: the file exists and is empty.\<close>

definition os_Create :: "string \<Rightarrow> world \<Rightarrow> world" where
  "os_Create p w = w\<lparr>fs := (fs w)(p \<mapsto> [])\<rparr>"

text \<open>\<^verbatim>\<open>File.Write\<close>: appends to the file opened at the path.\<close>

definition file_Write :: "string \<Rightarrow> string \<Rightarrow> world \<Rightarrow> world" where
  "file_Write p d w =
     w\<lparr>fs := (fs w)(p \<mapsto> (case fs w p of None \<Rightarrow> d | Some old \<Rightarrow> old @ d))\<rparr>"

definition log_event :: "net_event \<Rightarrow> world \<Rightarrow> world" where
  "log_event ev w = w\<lparr>net := net w @ [ev]\<rparr>"

section \<open>\<^verbatim>\<open>filepath.Join\<close>\<close>

text \<open>
  \<^verbatim>\<open>filepath.Join\<close> joins with the separator and then applies \<^verbatim>\<open>filepath.Clean\<close>
  (Unix rules): empty and \<^verbatim>\<open>.\<close> elements are dropped, \<^verbatim>\<open>..\<close> removes the element
  before it (or stays, at the start of a path that is not rooted).
\<close>

fun split_sep :: "string \<Rightarrow> string list" where
  "split_sep [] = [[]]"
| "split_sep (c # cs) =
     (if c = CHR ''/'' then [] # split_sep cs
      else (case split_sep cs of [] \<Rightarrow> [[c]] | x # xs \<Rightarrow> (c # x) # xs))"

fun join_sep :: "string list \<Rightarrow> string" where
  "join_sep [] = []"
| "join_sep [x] = x"
| "join_sep (x # y # ys) = x @ ''/'' @ join_sep (y # ys)"

text \<open>One path element; the elements kept so far are held last first.\<close>

definition clean_elem :: "bool \<Rightarrow> string list \<Rightarrow> string \<Rightarrow> string list" where
  "clean_elem rooted kept c =
     (if c = [] \<or> c = ''.'' then kept
      else if c = ''..'' then
        (case kept of
           [] \<Rightarrow> (if rooted then [] else [''..''])
         | t # ts \<Rightarrow> (if t = ''..'' then ''..'' # kept else ts))
      else c # kept)"

definition Clean :: "string \<Rightarrow> string" where
  "Clean path =
     (if path = [] then ''.''
      else
        let rooted = (hd path = CHR ''/'');
            out = join_sep (rev (foldl (clean_elem rooted) [] (split_sep path)))
        in if rooted then ''/'' @ out else if out = [] then ''.'' else out)"

definition Join :: "string \<Rightarrow> string \<Rightarrow> string" where
  "Join a b =
     (if a \<noteq> [] then Clean (a @ ''/'' @ b)
      else if b \<noteq> [] then Clean b
      else [])"

section \<open>The environment of one call\<close>

text \<open>
  What the outside world answers during one \<^verbatim>\<open>Download\<close> call. A read of a response
  body returns bytes together with \<^verbatim>\<open>nil\<close>, \<^verbatim>\<open>io.EOF\<close> or another error; a body
  is the list of its reads, and a read past the end of the list returns no bytes and
  \<^verbatim>\<open>io.EOF\<close>. A server maps the URL of a request to a transport error, a redirect
  to another URL, or a final response (status code and body).
\<close>

datatype rd = RdOk | RdEOF | RdErr error

type_synonym body = "(string \<times> rd) list"

datatype hop = HopErr error | HopRedirect string | HopFinal nat body

datatype token_outcome = TokenErr error | TokenResp nat string

text \<open>
  \<open>ctrl\<close>: the control endpoint, by video id and media type (\<open>TokenResp\<close> carries the
  status code and the \<^verbatim>\<open>download_token\<close> field of the JSON body, empty when there is
  none). \<open>srv\<close>: the servers of data requests. \<open>mkdir\<close>: the outcome of creating the
  \<^verbatim>\<open>downloads\<close> directory. \<open>new_request\<close>: the error of \<^verbatim>\<open>http.NewRequest\<close> for a
  URL, if any. \<open>create\<close>: the error of \<^verbatim>\<open>os.Create\<close> for a path, if any.
  \<open>write_res\<close>: for the \<open>k\<close>-th pass of a copy loop, the failure of its \<^verbatim>\<open>Write\<close>, if
  any: the number of bytes that reached the file and the error. \<open>api_key\<close>: the
  environment variable \<^verbatim>\<open>YT_API_KEY\<close>.
\<close>

record env =
  ctrl :: "string \<Rightarrow> string \<Rightarrow> token_outcome"
  srv :: "string \<Rightarrow> hop"
  mkdir :: "error option"
  new_request :: "string \<Rightarrow> error option"
  create :: "string \<Rightarrow> error option"
  write_res :: "nat \<Rightarrow> (nat \<times> error) option"
  api_key :: string

text \<open>
  A context, as the streaming loop sees it: the \<open>k\<close>-th poll of \<^verbatim>\<open>ctx.Done()\<close> finds
  the channel open (\<open>None\<close>) or closed, with \<^verbatim>\<open>ctx.Err()\<close>.
\<close>

type_synonym go_context = "nat \<Rightarrow> error option"

record Track =
  ID :: string
  Title :: string
  Video :: bool

section \<open>The HTTP client\<close>

text \<open>
  \<^verbatim>\<open>http.Client.Do\<close>: sends the request, and on a redirect response asks the client's
  \<^verbatim>\<open>CheckRedirect\<close> policy with the next URL and the requests made so far; an error of
  the policy or of the transport comes back inside a \<^verbatim>\<open>*url.Error\<close>. Nothing in the
  client itself bounds the number of hops, so the function is partial.
\<close>

partial_function (option) client_do ::
  "(string \<Rightarrow> string list \<Rightarrow> error option) \<Rightarrow> (string \<Rightarrow> hop) \<Rightarrow> string \<Rightarrow> string list
     \<Rightarrow> world \<Rightarrow> ((error + nat \<times> body) \<times> world) option" where
  "client_do policy server url reqs w =
     (let w' = log_event (DataGet url) w; via = reqs @ [url] in
      case server url of
        HopErr e \<Rightarrow> Some (Inl (LibWrap ''Get'' e), w')
      | HopFinal status b \<Rightarrow> Some (Inr (status, b), w')
      | HopRedirect loc \<Rightarrow>
          (case policy loc via of
             Some e \<Rightarrow> Some (Inl (LibWrap ''Get'' e), w')
           | None \<Rightarrow> client_do policy server loc via w'))"

text \<open>The policy of \<^verbatim>\<open>downloadFile\<close>'s client.\<close>

definition CheckRedirect :: "string \<Rightarrow> string list \<Rightarrow> error option" where
  "CheckRedirect req via =
     (if length via \<ge> 10 then Some (ErrorsNew ''too many redirects'') else None)"

text \<open>The policy of a client with no \<^verbatim>\<open>CheckRedirect\<close> (\<^verbatim>\<open>net/http\<close>'s default).\<close>

definition defaultCheckRedirect :: "string \<Rightarrow> string list \<Rightarrow> error option" where
  "defaultCheckRedirect req via =
     (if length via \<ge> 10 then Some (ErrorsNew ''stopped after 10 redirects'') else None)"

text \<open>A policy that never refuses, to compare with.\<close>

definition no_policy :: "string \<Rightarrow> string list \<Rightarrow> error option" where
  "no_policy req via = None"

section \<open>ShrutiAPI\<close>

definition PlatformShrutiAPI :: string where
  "PlatformShrutiAPI = ''ShrutiAPI''"

record ShrutiAPIPlatform =
  name :: string
  apiURL :: string

text \<open>The instance registered by \<^verbatim>\<open>init\<close>.\<close>

definition shruti :: ShrutiAPIPlatform where
  "shruti = \<lparr>name = PlatformShrutiAPI, apiURL = ''https://shrutibots.site''\<rparr>"

definition ShrutiAPI_Name :: "ShrutiAPIPlatform \<Rightarrow> string" where
  "ShrutiAPI_Name s = name s"

definition ShrutiAPI_IsValid :: "ShrutiAPIPlatform \<Rightarrow> string \<Rightarrow> bool" where
  "ShrutiAPI_IsValid s query = False"

definition ShrutiAPI_GetTracks ::
  "ShrutiAPIPlatform \<Rightarrow> string \<Rightarrow> bool \<Rightarrow> error + Track list" where
  "ShrutiAPI_GetTracks s query video = Inl (ErrorsNew ''shrutiapi is a download-only platform'')"

text \<open>
  \<^verbatim>\<open>PlatformYouTube\<close> is a constant declared outside the two files; it is the
  first argument here.
\<close>

definition ShrutiAPI_IsDownloadSupported ::
  "string \<Rightarrow> ShrutiAPIPlatform \<Rightarrow> string \<Rightarrow> bool" where
  "ShrutiAPI_IsDownloadSupported PlatformYouTube s source = (source = PlatformYouTube)"

text \<open>
  resty: \<^verbatim>\<open>IsError\<close> is a status above 399, and the result object is filled from the
  body only when the status is between 200 and 299.
\<close>

definition resty_IsError :: "nat \<Rightarrow> bool" where
  "resty_IsError status = (status > 399)"

definition resty_IsSuccess :: "nat \<Rightarrow> bool" where
  "resty_IsSuccess status = (199 < status \<and> status < 300)"

definition is_ctx_err :: "error \<Rightarrow> bool" where
  "is_ctx_err err = (errors_Is err ContextCanceled \<or> errors_Is err ContextDeadlineExceeded)"

definition getDownloadToken ::
  "ShrutiAPIPlatform \<Rightarrow> env \<Rightarrow> string \<Rightarrow> string \<Rightarrow> world \<Rightarrow> (error + string) \<times> world" where
  "getDownloadToken s E videoID mediaType w =
     (let w' = log_event (ControlGet (apiURL s @ ''/download'') videoID mediaType) w in
      case ctrl E videoID mediaType of
        TokenErr err \<Rightarrow>
          (if is_ctx_err err then (Inl err, w')
           else (Inl (ErrorfWrap ''api request failed'' err), w'))
      | TokenResp status tok \<Rightarrow>
          (if resty_IsError status
           then (Inl (ErrorfStatus ''api returned status'' status), w')
           else
             let DownloadToken = (if resty_IsSuccess status then tok else []) in
             if DownloadToken = []
             then (Inl (ErrorsNew ''empty download token received''), w')
             else (Inr DownloadToken, w')))"

text \<open>
  The loop of \<^verbatim>\<open>downloadFile\<close>, at its \<open>k\<close>-th pass, with the reads that are left:
  poll the context, read, write what was read, then look at the read's error.
\<close>

fun stream_loop ::
  "go_context \<Rightarrow> env \<Rightarrow> string \<Rightarrow> nat \<Rightarrow> body \<Rightarrow> world \<Rightarrow> error option \<times> world" where
  "stream_loop ctx E filePath k [] w =
     (case ctx k of
        Some e \<Rightarrow> (Some e, w)
      | None \<Rightarrow> (None, log_event BodyRead w))"
| "stream_loop ctx E filePath k ((d, r) # rest) w =
     (case ctx k of
        Some e \<Rightarrow> (Some e, w)
      | None \<Rightarrow>
          (let w1 = log_event BodyRead w in
           case (if d \<noteq> [] then write_res E k else None) of
             Some (n, writeErr) \<Rightarrow>
               (Some (ErrorfWrap ''write error'' writeErr), file_Write filePath (take n d) w1)
           | None \<Rightarrow>
               (let w2 = (if d \<noteq> [] then file_Write filePath d w1 else w1) in
                case r of
                  RdEOF \<Rightarrow> (None, w2)
                | RdErr err \<Rightarrow> (Some (ErrorfWrap ''read error'' err), w2)
                | RdOk \<Rightarrow> stream_loop ctx E filePath (Suc k) rest w2)))"

text \<open>The URL built at the start of \<^verbatim>\<open>downloadFile\<close>.\<close>

definition streamURL :: "ShrutiAPIPlatform \<Rightarrow> string \<Rightarrow> string \<Rightarrow> string \<Rightarrow> string" where
  "streamURL s videoID mediaType token =
     apiURL s @ ''/stream/'' @ videoID @ ''?type='' @ mediaType @ ''&token='' @ token"

definition downloadFile ::
  "ShrutiAPIPlatform \<Rightarrow> env \<Rightarrow> go_context \<Rightarrow> string \<Rightarrow> string \<Rightarrow> string \<Rightarrow> string \<Rightarrow> world
     \<Rightarrow> (error option \<times> world) option" where
  "downloadFile s E ctx videoID mediaType token filePath w =
     (let streamURL = streamURL s videoID mediaType token in
      case new_request E streamURL of
        Some err \<Rightarrow> Some (Some (ErrorfWrap ''failed to create request'' err), w)
      | None \<Rightarrow>
          (case client_do CheckRedirect (srv E) streamURL [] w of
             None \<Rightarrow> None
           | Some (Inl err, w1) \<Rightarrow>
               (if is_ctx_err err then Some (Some err, w1)
                else Some (Some (ErrorfWrap ''request failed'' err), w1))
           | Some (Inr (status, b), w1) \<Rightarrow>
               (if status \<noteq> 200
                then Some (Some (ErrorfStatus ''unexpected status code'' status), w1)
                else
                  (case create E filePath of
                     Some err \<Rightarrow> Some (Some (ErrorfWrap ''failed to create file'' err), w1)
                   | None \<Rightarrow> Some (stream_loop ctx E filePath 0 b (os_Create filePath w1))))))"

text \<open>
  \<^verbatim>\<open>checkDownloadedFile\<close> and \<^verbatim>\<open>ensureDownloadsDir\<close> are called by \<^verbatim>\<open>Download\<close> and
  declared outside the two files: the first is the argument \<open>chk\<close>, which reads the
  files, and the outcome of the second is \<open>mkdir\<close> of the environment.
\<close>

definition ShrutiAPI_Download ::
  "(filesystem \<Rightarrow> string \<Rightarrow> error + string) \<Rightarrow> ShrutiAPIPlatform \<Rightarrow> env \<Rightarrow> go_context \<Rightarrow> Track
     \<Rightarrow> world \<Rightarrow> ((error + string) \<times> world) option" where
  "ShrutiAPI_Download chk s E ctx track w =
     (case chk (fs w) (ID track) of
        Inr path \<Rightarrow> Some (Inr path, w)
      | Inl _ \<Rightarrow>
          (case mkdir E of
             Some err \<Rightarrow> Some (Inl (ErrorfWrap ''failed to create downloads directory'' err), w)
           | None \<Rightarrow>
               (let videoID = ID track;
                    mediaType = (if Video track then ''video'' else ''audio'');
                    ext = (if Video track then ''.mp4'' else ''.mp3'');
                    filePath = Join ''downloads'' (ID track @ ext) in
                case getDownloadToken s E videoID mediaType w of
                  (Inl err, w1) \<Rightarrow>
                    Some (Inl (ErrorfWrap ''failed to get download token'' err), w1)
                | (Inr token, w1) \<Rightarrow>
                    (case downloadFile s E ctx videoID mediaType token filePath w1 of
                       None \<Rightarrow> None
                     | Some (Some err, w2) \<Rightarrow>
                         Some (Inl (ErrorfWrap ''download failed'' err), os_Remove filePath w2)
                     | Some (None, w2) \<Rightarrow>
                         (case fs w2 filePath of
                            None \<Rightarrow>
                              Some (Inl (ErrorsNew ''downloaded file is empty or missing''),
                                    os_Remove filePath w2)
                          | Some content \<Rightarrow>
                              (if length content = 0
                               then Some (Inl (ErrorsNew ''downloaded file is empty or missing''),
                                          os_Remove filePath w2)
                               else Some (Inr filePath, w2)))))))"

section \<open>Youtubify\<close>

definition apiBase :: string where
  "apiBase = ''https://youtubify.me''"

definition PlatformYoutubify :: string where
  "PlatformYoutubify = ''xyz''"

definition Youtubify_Name :: string where
  "Youtubify_Name = PlatformYoutubify"

definition Youtubify_IsValid :: "string \<Rightarrow> bool" where
  "Youtubify_IsValid query = False"

definition Youtubify_GetTracks :: "string \<Rightarrow> error + Track list" where
  "Youtubify_GetTracks query = Inl (ErrorsNew ''Youtubify is a direct download platform'')"

definition Youtubify_IsDownloadSupported :: "string \<Rightarrow> string \<Rightarrow> bool" where
  "Youtubify_IsDownloadSupported PlatformYouTube source = (source = PlatformYouTube)"

text \<open>\<^verbatim>\<open>io.Copy\<close> at its \<open>k\<close>-th pass: read, write, stop at the first error.\<close>

fun io_Copy :: "env \<Rightarrow> string \<Rightarrow> nat \<Rightarrow> body \<Rightarrow> world \<Rightarrow> error option \<times> world" where
  "io_Copy E path k [] w = (None, log_event BodyRead w)"
| "io_Copy E path k ((d, r) # rest) w =
     (let w1 = log_event BodyRead w in
      case (if d \<noteq> [] then write_res E k else None) of
        Some (n, ew) \<Rightarrow> (Some ew, file_Write path (take n d) w1)
      | None \<Rightarrow>
          (let w2 = (if d \<noteq> [] then file_Write path d w1 else w1) in
           case r of
             RdEOF \<Rightarrow> (None, w2)
           | RdErr er \<Rightarrow> (Some er, w2)
           | RdOk \<Rightarrow> io_Copy E path (Suc k) rest w2))"

definition downloadAudio ::
  "env \<Rightarrow> string \<Rightarrow> world \<Rightarrow> ((error + string) \<times> world) option" where
  "downloadAudio E videoID w =
     (let filepath = ''downloads/'' @ videoID @ ''.mp3'' in
      if fs w filepath \<noteq> None then Some (Inr filepath, w)
      else
        (case mkdir E of
           Some err \<Rightarrow> Some (Inl err, w)
         | None \<Rightarrow>
             (let url = apiBase @ ''/download/audio?video_id='' @ videoID
                          @ ''&mode=download&no_redirect=1&api_key='' @ api_key E in
              case new_request E url of
                Some err \<Rightarrow> Some (Inl err, w)
              | None \<Rightarrow>
                  (case client_do defaultCheckRedirect (srv E) url [] w of
                     None \<Rightarrow> None
                   | Some (Inl err, w1) \<Rightarrow> Some (Inl err, w1)
                   | Some (Inr (status, b), w1) \<Rightarrow>
                       (if status \<noteq> 200
                        then Some (Inl (ErrorfStatus ''API returned'' status), w1)
                        else
                          (case create E filepath of
                             Some err \<Rightarrow> Some (Inl err, w1)
                           | None \<Rightarrow>
                               (case io_Copy E filepath 0 b (os_Create filepath w1) of
                                  (Some err, w2) \<Rightarrow> Some (Inl err, w2)
                                | (None, w2) \<Rightarrow> Some (Inr filepath, w2))))))))"

definition Youtubify_Download ::
  "env \<Rightarrow> go_context \<Rightarrow> Track \<Rightarrow> world \<Rightarrow> ((error + string) \<times> world) option" where
  "Youtubify_Download E ctx track w = downloadAudio E (ID track) w"

section \<open>Notions used in the properties\<close>

text \<open>
  Modelled from the spec: \<^verbatim>\<open>checkDownloadedFile\<close>, the cache check that \<^verbatim>\<open>Download\<close>
  calls with the track identifier, is missing from the sources. The spec keys a cache
  entry by the identifier and an extension derived from the media kind (\<^verbatim>\<open>mp3\<close> for
  audio, \<^verbatim>\<open>mp4\<close> for video), in the \<^verbatim>\<open>downloads\<close> directory, and takes the existence
  of the file as the only sign of validity.
\<close>

definition checkDownloadedFile :: "filesystem \<Rightarrow> string \<Rightarrow> error + string" where
  "checkDownloadedFile files videoID =
     (if files (Join ''downloads'' (videoID @ ''.mp3'')) \<noteq> None
      then Inr (Join ''downloads'' (videoID @ ''.mp3''))
      else if files (Join ''downloads'' (videoID @ ''.mp4'')) \<noteq> None
      then Inr (Join ''downloads'' (videoID @ ''.mp4''))
      else Inl (ErrorsNew ''file not found''))"

text \<open>The first \<open>n\<close> responses on the way from a URL are all redirects.\<close>

fun redirects :: "(string \<Rightarrow> hop) \<Rightarrow> string \<Rightarrow> nat \<Rightarrow> bool" where
  "redirects server url 0 = True"
| "redirects server url (Suc n) =
     (case server url of HopRedirect loc \<Rightarrow> redirects server loc n | _ \<Rightarrow> False)"

text \<open>The number of data requests in a log of network traffic.\<close>

fun is_DataGet :: "net_event \<Rightarrow> bool" where
  "is_DataGet (DataGet url) = True"
| "is_DataGet ev = False"

definition data_requests :: "net_event list \<Rightarrow> nat" where
  "data_requests evs = length (filter is_DataGet evs)"

text \<open>The media type and the path that \<^verbatim>\<open>Download\<close> of ShrutiAPI computes for a track.\<close>

definition mediaType_of :: "Track \<Rightarrow> string" where
  "mediaType_of track = (if Video track then ''video'' else ''audio'')"

definition target :: "Track \<Rightarrow> string" where
  "target track = Join ''downloads'' (ID track @ (if Video track then ''.mp4'' else ''.mp3''))"

subsection \<open>Concrete inputs\<close>

definition empty_world :: world where
  "empty_world = \<lparr>fs = Map.empty, net = []\<rparr>"

definition audio_track :: Track where
  "audio_track = \<lparr>ID = ''abc123'', Title = ''song'', Video = False\<rparr>"

definition video_track :: Track where
  "video_track = \<lparr>ID = ''abc123'', Title = ''clip'', Video = True\<rparr>"

text \<open>Every request succeeds; a data response is 200 with the body read in two chunks.\<close>

definition good_env :: env where
  "good_env =
     \<lparr>ctrl = (\<lambda>videoID mediaType. TokenResp 200 ''T1''),
      srv = (\<lambda>url. HopFinal 200 [(''abc'', RdOk), (''de'', RdEOF)]),
      mkdir = None,
      new_request = (\<lambda>url. None),
      create = (\<lambda>path. None),
      write_res = (\<lambda>k. None),
      api_key = ''key''\<rparr>"

definition never_done :: go_context where
  "never_done = (\<lambda>k. None)"

text \<open>A context that is canceled from its \<open>n\<close>-th poll on.\<close>

definition canceled_after :: "nat \<Rightarrow> go_context" where
  "canceled_after n = (\<lambda>k. if n \<le> k then Some ContextCanceled else None)"

definition no_cache :: "filesystem \<Rightarrow> string \<Rightarrow> error + string" where
  "no_cache files videoID = Inl (ErrorsNew ''file not found'')"

text \<open>The body breaks after its first chunk.\<close>

definition truncated_env :: env where
  "truncated_env =
     good_env\<lparr>srv := (\<lambda>url. HopFinal 200
        [(''abc'', RdOk), ([], RdErr (LibError ''unexpected EOF''))])\<rparr>"

text \<open>The response is 200 with an empty body.\<close>

definition empty_body_env :: env where
  "empty_body_env = good_env\<lparr>srv := (\<lambda>url. HopFinal 200 [])\<rparr>"

text \<open>Every URL redirects to itself.\<close>

definition redirect_loop_env :: env where
  "redirect_loop_env = good_env\<lparr>srv := (\<lambda>url. HopRedirect url)\<rparr>"

text \<open>Both requests fail with a context error.\<close>

definition deadline_env :: env where
  "deadline_env =
     good_env\<lparr>ctrl := (\<lambda>videoID mediaType. TokenErr ContextDeadlineExceeded),
              srv := (\<lambda>url. HopErr ContextCanceled)\<rparr>"

text \<open>
  What \<^verbatim>\<open>net/http\<close> returns when the \<^verbatim>\<open>Timeout\<close> of the client itself elapses (7 seconds
  for the token request, 300 or 600 seconds for the data request): \<^verbatim>\<open>errors.Is\<close> finds
  \<^verbatim>\<open>context.DeadlineExceeded\<close> in it, whatever the state of the caller's context.
\<close>

definition client_timeout :: error where
  "client_timeout =
     LibWrap ''Client.Timeout exceeded while awaiting headers'' ContextDeadlineExceeded"

text \<open>A provider too slow for the clients: both requests run into the client's timeout.\<close>

definition slow_env :: env where
  "slow_env =
     good_env\<lparr>ctrl := (\<lambda>videoID mediaType. TokenErr (LibWrap ''Get'' client_timeout)),
              srv := (\<lambda>url. HopErr client_timeout)\<rparr>"

text \<open>The control endpoint answers 200 with an empty token.\<close>

definition empty_token_env :: env where
  "empty_token_env = good_env\<lparr>ctrl := (\<lambda>videoID mediaType. TokenResp 200 [])\<rparr>"

definition youtubify_url :: string where
  "youtubify_url =
     ''https://youtubify.me/download/audio?video_id=abc123&mode=download&no_redirect=1&api_key=key''"

text \<open>The worlds after a download of \<open>abc123\<close> in \<open>good_env\<close>, by either provider.\<close>

definition youtubify_done :: world where
  "youtubify_done =
     \<lparr>fs = [''downloads/abc123.mp3'' \<mapsto> ''abcde''],
      net = [DataGet youtubify_url, BodyRead, BodyRead]\<rparr>"

definition shruti_done :: world where
  "shruti_done =
     \<lparr>fs = [''downloads/abc123.mp3'' \<mapsto> ''abcde''],
      net = [ControlGet ''https://shrutibots.site/download'' ''abc123'' ''audio'',
             DataGet ''https://shrutibots.site/stream/abc123?type=audio&token=T1'',
             BodyRead, BodyRead]\<rparr>"

text \<open>A world whose cache holds the first three bytes of a file only.\<close>

definition truncated_world :: world where
  "truncated_world =
     \<lparr>fs = [''downloads/abc123.mp3'' \<mapsto> ''abc''],
      net = [DataGet youtubify_url, BodyRead, BodyRead]\<rparr>"

text \<open>A world whose cache holds an empty file.\<close>

definition empty_file_world :: world where
  "empty_file_world =
     \<lparr>fs = [''downloads/abc123.mp3'' \<mapsto> []],
      net = [DataGet youtubify_url, BodyRead]\<rparr>"

section \<open>The HTTP client under a redirect policy\<close>

text \<open>
  A policy that refuses once ten requests have been made turns the client into a total
  function: by induction on the number of requests that are still allowed.
\<close>

lemma client_do_total:
  assumes cap: "\<And>req via. 10 \<le> length via \<Longrightarrow> policy req via \<noteq> None"
  shows "\<exists>r. client_do policy server url reqs w = Some r"
proof (induction "10 - length reqs" arbitrary: url reqs w rule: less_induct)
  case less
  show ?case
  proof (cases "server url")
    case (HopErr e)
    then show ?thesis by (subst client_do.simps) simp
  next
    case (HopFinal st b)
    then show ?thesis by (subst client_do.simps) simp
  next
    case (HopRedirect loc)
    show ?thesis
    proof (cases "policy loc (reqs @ [url])")
      case (Some e)
      with HopRedirect show ?thesis by (subst client_do.simps) simp
    next
      case None
      with cap have "length (reqs @ [url]) < 10"
        by (meson not_le_imp_less)
      then have "10 - length (reqs @ [url]) < 10 - length reqs" by simp
      from less [OF this] obtain r where
        "client_do policy server loc (reqs @ [url]) (log_event (DataGet url) w) = Some r"
        by blast
      with HopRedirect None show ?thesis by (subst client_do.simps) simp
    qed
  qed
qed

lemma CheckRedirect_cap: "10 \<le> length via \<Longrightarrow> CheckRedirect req via \<noteq> None"
  by (simp add: CheckRedirect_def)

lemma defaultCheckRedirect_cap: "10 \<le> length via \<Longrightarrow> defaultCheckRedirect req via \<noteq> None"
  by (simp add: defaultCheckRedirect_def)

text \<open>Without a cap the client follows a redirect loop for ever.\<close>

lemma client_do_loops_aux:
  assumes "client_do policy server url reqs w = Some rw"
  shows "policy = no_policy \<Longrightarrow> server = (\<lambda>url. HopRedirect url) \<Longrightarrow> False"
  using assms
proof (induction rule: client_do.raw_induct [rotated 1, consumes 1])
  case (1 client_do policy server url reqs w rw)
  from 1(2) 1(3) 1(4)
  have "client_do policy server url (reqs @ [url]) (log_event (DataGet url) w) = Some rw"
    by (simp add: no_policy_def Let_def)
  from 1(1) [OF this 1(3) 1(4)] show ?case .
qed

lemma client_do_loops:
  "client_do no_policy (\<lambda>url. HopRedirect url) url reqs w = None"
  using client_do_loops_aux [of no_policy "\<lambda>url. HopRedirect url" url reqs w]
  by (cases "client_do no_policy (\<lambda>url. HopRedirect url) url reqs w") auto

text \<open>The client touches no file.\<close>

lemma client_do_fs_aux:
  assumes "client_do policy server url reqs w = Some rw"
  shows "fs (snd rw) = fs w"
  using assms
proof (induction rule: client_do.raw_induct [rotated 1, consumes 1])
  case (1 client_do policy server url reqs w rw)
  show ?case
  proof (cases "server url")
    case (HopErr e)
    with 1(2) show ?thesis by (auto simp: log_event_def)
  next
    case (HopFinal st b)
    with 1(2) show ?thesis by (auto simp: log_event_def)
  next
    case (HopRedirect loc)
    show ?thesis
    proof (cases "policy loc (reqs @ [url])")
      case (Some e)
      with HopRedirect 1(2) show ?thesis by (auto simp: log_event_def)
    next
      case None
      with HopRedirect 1(2)
      have "client_do policy server loc (reqs @ [url]) (log_event (DataGet url) w) = Some rw"
        by (simp add: Let_def)
      from 1(1) [OF this] show ?thesis by (simp add: log_event_def)
    qed
  qed
qed

lemma client_do_fs:
  "client_do policy server url reqs w = Some (r, w') \<Longrightarrow> fs w' = fs w"
  using client_do_fs_aux by fastforce

text \<open>The client logs its requests, one per hop, and a capped policy allows ten at most.\<close>

lemma client_do_net_aux:
  assumes "client_do policy server url reqs w = Some rw"
    and "\<And>req via. 10 \<le> length via \<Longrightarrow> policy req via \<noteq> None"
  shows "\<exists>urls. net (snd rw) = net w @ map DataGet urls \<and> urls \<noteq> [] \<and>
            length (reqs @ urls) \<le> max 10 (Suc (length reqs))"
  using assms
proof (induction rule: client_do.raw_induct [rotated 1, consumes 1])
  case (1 client_do policy server url reqs w rw)
  show ?case
  proof (cases "server url")
    case (HopErr e)
    with 1(2) have "net (snd rw) = net w @ map DataGet [url]"
      by (auto simp: Let_def log_event_def)
    then show ?thesis by (intro exI [of _ "[url]"]) simp
  next
    case (HopFinal st b)
    with 1(2) have "net (snd rw) = net w @ map DataGet [url]"
      by (auto simp: Let_def log_event_def)
    then show ?thesis by (intro exI [of _ "[url]"]) simp
  next
    case (HopRedirect loc)
    show ?thesis
    proof (cases "policy loc (reqs @ [url])")
      case (Some e)
      with HopRedirect 1(2) have "net (snd rw) = net w @ map DataGet [url]"
        by (auto simp: Let_def log_event_def)
      then show ?thesis by (intro exI [of _ "[url]"]) simp
    next
      case None
      with 1(3) have short: "length (reqs @ [url]) < 10"
        by (meson not_le_imp_less)
      from HopRedirect None 1(2)
      have "client_do policy server loc (reqs @ [url]) (log_event (DataGet url) w) = Some rw"
        by (simp add: Let_def)
      from 1(1) [OF this 1(3)] obtain urls where
        u: "net (snd rw) = net (log_event (DataGet url) w) @ map DataGet urls" "urls \<noteq> []"
           "length ((reqs @ [url]) @ urls) \<le> max 10 (Suc (length (reqs @ [url])))"
        by blast
      from u(1) have "net (snd rw) = net w @ map DataGet (url # urls)"
        by (simp add: log_event_def)
      moreover from u(3) short have "length (reqs @ url # urls) \<le> max 10 (Suc (length reqs))"
        by simp
      ultimately show ?thesis by (intro exI [of _ "url # urls"]) simp
    qed
  qed
qed

lemma data_requests_append [simp]:
  "data_requests (xs @ ys) = data_requests xs + data_requests ys"
  by (simp add: data_requests_def)

lemma data_requests_DataGet [simp]: "data_requests (map DataGet urls) = length urls"
  by (induction urls) (simp_all add: data_requests_def)

lemma client_do_data_requests:
  assumes "client_do policy server url [] w = Some (r, w')"
    and "\<And>req via. 10 \<le> length via \<Longrightarrow> policy req via \<noteq> None"
  shows "data_requests (net w') \<le> data_requests (net w) + 10"
proof -
  from client_do_net_aux [OF assms] obtain urls where
    "net w' = net w @ map DataGet urls" "length ([] @ urls) \<le> max 10 (Suc (length ([]::string list)))"
    by auto
  then show ?thesis by simp
qed

text \<open>Ten redirects in a row are refused by the policy of \<^verbatim>\<open>downloadFile\<close>.\<close>

lemma client_do_redirects:
  assumes "redirects server url n" "10 \<le> length reqs + n" "length reqs < 10"
  shows "\<exists>w'. client_do CheckRedirect server url reqs w =
               Some (Inl (LibWrap ''Get'' (ErrorsNew ''too many redirects'')), w')"
  using assms
proof (induction n arbitrary: url reqs w)
  case 0
  then show ?case by simp
next
  case (Suc n)
  from Suc.prems(1) obtain loc where loc: "server url = HopRedirect loc" "redirects server loc n"
    by (auto split: hop.splits)
  show ?case
  proof (cases "10 \<le> length (reqs @ [url])")
    case True
    with loc show ?thesis
      by (subst client_do.simps) (simp add: CheckRedirect_def)
  next
    case False
    then have "length (reqs @ [url]) < 10" by simp
    moreover from Suc.prems(2) have "10 \<le> length (reqs @ [url]) + n" by simp
    ultimately obtain w' where
      "client_do CheckRedirect server loc (reqs @ [url]) (log_event (DataGet url) w) =
         Some (Inl (LibWrap ''Get'' (ErrorsNew ''too many redirects'')), w')"
      using Suc.IH [OF loc(2)] by blast
    with loc False show ?thesis
      by (subst client_do.simps) (simp add: CheckRedirect_def)
  qed
qed

section \<open>The copy loops\<close>

lemma file_Write_net [simp]: "net (file_Write p d w) = net w"
  by (simp add: file_Write_def)

lemma os_Create_net [simp]: "net (os_Create p w) = net w"
  by (simp add: os_Create_def)

lemma os_Remove_net [simp]: "net (os_Remove p w) = net w"
  by (simp add: os_Remove_def)

lemma log_event_fs [simp]: "fs (log_event ev w) = fs w"
  by (simp add: log_event_def)

lemma log_event_net [simp]: "net (log_event ev w) = net w @ [ev]"
  by (simp add: log_event_def)

lemma file_Write_other [simp]: "q \<noteq> p \<Longrightarrow> fs (file_Write p d w) q = fs w q"
  by (simp add: file_Write_def)

lemma os_Create_other [simp]: "q \<noteq> p \<Longrightarrow> fs (os_Create p w) q = fs w q"
  by (simp add: os_Create_def)

lemma os_Remove_other [simp]: "q \<noteq> p \<Longrightarrow> fs (os_Remove p w) q = fs w q"
  by (simp add: os_Remove_def)

lemma os_Remove_target [simp]: "fs (os_Remove p w) p = None"
  by (simp add: os_Remove_def)

text \<open>The streaming loop only reads the body and only writes the output file.\<close>

lemma stream_loop_net:
  "\<exists>n. net (snd (stream_loop ctx E p k b w)) = net w @ replicate n BodyRead"
proof (induction b arbitrary: k w)
  case Nil
  show ?case
  proof (cases "ctx k")
    case None
    then show ?thesis by (simp add: exI [of _ "Suc 0"])
  next
    case (Some e)
    then show ?thesis by simp
  qed
next
  case (Cons x b)
  obtain d r where x: "x = (d, r)" by (cases x)
  have one: "\<exists>n. net w @ [BodyRead] = net w @ replicate n BodyRead"
    by (rule exI [of _ "Suc 0"]) simp
  have more: "\<exists>n. net (snd (stream_loop ctx E p (Suc k) b w')) = net w @ replicate n BodyRead"
    if "net w' = net w @ [BodyRead]" for w'
  proof -
    from Cons.IH [of "Suc k" w'] obtain n where
      "net (snd (stream_loop ctx E p (Suc k) b w')) = net w' @ replicate n BodyRead"
      by blast
    with that have "net (snd (stream_loop ctx E p (Suc k) b w')) = net w @ replicate (Suc n) BodyRead"
      by simp
    then show ?thesis by blast
  qed
  show ?case
  proof (cases "ctx k")
    case (Some e)
    then show ?thesis by (simp add: x)
  next
    case None
    then show ?thesis
      using one more
      by (cases r) (auto simp: x Let_def split: option.splits)
  qed
qed

lemma data_requests_BodyRead [simp]: "data_requests (replicate n BodyRead) = 0"
  by (induction n) (simp_all add: data_requests_def)

lemma stream_loop_data_requests:
  "data_requests (net (snd (stream_loop ctx E p k b w))) = data_requests (net w)"
proof -
  from stream_loop_net [of ctx E p k b w] obtain n where
    "net (snd (stream_loop ctx E p k b w)) = net w @ replicate n BodyRead" by blast
  then show ?thesis by simp
qed

lemma stream_loop_other:
  "q \<noteq> p \<Longrightarrow> fs (snd (stream_loop ctx E p k b w)) q = fs w q"
proof (induction b arbitrary: k w)
  case Nil
  then show ?case by (simp split: option.splits)
next
  case (Cons x b)
  obtain d r where x: "x = (d, r)" by (cases x)
  from Cons show ?case
    by (cases r) (auto simp: x Let_def split: option.splits)
qed

section \<open>\<^verbatim>\<open>downloadFile\<close>\<close>

lemma downloadFile_total:
  "\<exists>r. downloadFile s E ctx videoID mediaType token filePath w = Some r"
proof -
  obtain r w1 where
    "client_do CheckRedirect (srv E) (streamURL s videoID mediaType token) [] w = Some (r, w1)"
    using client_do_total [of CheckRedirect, OF CheckRedirect_cap] by (metis surj_pair)
  then show ?thesis
    by (cases r) (auto simp: downloadFile_def Let_def split: option.splits)
qed

lemma downloadFile_other:
  assumes "downloadFile s E ctx videoID mediaType token filePath w = Some (r, w')"
    and "q \<noteq> filePath"
  shows "fs w' q = fs w q"
proof (cases "new_request E (streamURL s videoID mediaType token)")
  case (Some err)
  with assms show ?thesis by (simp add: downloadFile_def)
next
  case None
  obtain res w1 where
    c: "client_do CheckRedirect (srv E) (streamURL s videoID mediaType token) [] w = Some (res, w1)"
    using client_do_total [of CheckRedirect, OF CheckRedirect_cap] by (metis surj_pair)
  then have f: "fs w1 = fs w" by (rule client_do_fs)
  have loop: "fs (snd (stream_loop ctx E filePath 0 b (os_Create filePath w1))) q = fs w q" for b
    using assms(2) f by (simp add: stream_loop_other)
  show ?thesis
  proof (cases res)
    case (Inl err)
    with assms(1) None c f show ?thesis
      by (auto simp: downloadFile_def split: if_splits)
  next
    case (Inr sb)
    obtain status b where sb: "sb = (status, b)" by (cases sb)
    from assms(1) None c f Inr sb loop [of b] show ?thesis
      by (auto simp: downloadFile_def split: if_splits option.splits)
  qed
qed

lemma downloadFile_data_requests:
  assumes "downloadFile s E ctx videoID mediaType token filePath w = Some (r, w')"
  shows "data_requests (net w') \<le> data_requests (net w) + 10"
proof (cases "new_request E (streamURL s videoID mediaType token)")
  case (Some err)
  with assms show ?thesis by (simp add: downloadFile_def)
next
  case None
  obtain res w1 where
    c: "client_do CheckRedirect (srv E) (streamURL s videoID mediaType token) [] w = Some (res, w1)"
    using client_do_total [of CheckRedirect, OF CheckRedirect_cap] by (metis surj_pair)
  then have n: "data_requests (net w1) \<le> data_requests (net w) + 10"
    by (rule client_do_data_requests) (rule CheckRedirect_cap)
  have loop: "data_requests (net (snd (stream_loop ctx E filePath 0 b (os_Create filePath w1))))
                \<le> data_requests (net w) + 10" for b
    using n by (simp add: stream_loop_data_requests)
  show ?thesis
  proof (cases res)
    case (Inl err)
    with assms None c n show ?thesis
      by (auto simp: downloadFile_def split: if_splits)
  next
    case (Inr sb)
    obtain status b where sb: "sb = (status, b)" by (cases sb)
    from assms None c n Inr sb loop [of b] show ?thesis
      by (auto simp: downloadFile_def split: if_splits option.splits)
  qed
qed

section \<open>Paths\<close>

lemma split_sep_plain: "CHR ''/'' \<notin> set x \<Longrightarrow> split_sep x = [x]"
  by (induction x) auto

lemma split_sep_first:
  "CHR ''/'' \<notin> set a \<Longrightarrow> split_sep (a @ CHR ''/'' # b) = a # split_sep b"
  by (induction a) auto

lemma Join_downloads:
  assumes "CHR ''/'' \<notin> set x" "x \<noteq> []" "x \<noteq> ''.''" "x \<noteq> ''..''"
  shows "Join ''downloads'' x = ''downloads/'' @ x"
proof -
  have "split_sep (''downloads'' @ CHR ''/'' # x) = ''downloads'' # split_sep x"
    by (rule split_sep_first) simp
  with assms(1) have "split_sep (''downloads/'' @ x) = [''downloads'', x]"
    by (simp add: split_sep_plain)
  with assms(2-4) show ?thesis
    by (simp add: Join_def Clean_def clean_elem_def)
qed

lemma target_plain:
  assumes "CHR ''/'' \<notin> set (ID track)"
  shows "target track = ''downloads/'' @ ID track @ (if Video track then ''.mp4'' else ''.mp3'')"
proof -
  have len: "length (ID track @ ext) \<ge> 4" if "length ext = 4" for ext
    using that by simp
  have ne: "ID track @ ext \<noteq> []" "ID track @ ext \<noteq> ''.''" "ID track @ ext \<noteq> ''..''"
    if "length ext = 4" for ext
    using len [OF that] by (auto dest: arg_cong [where f = length])
  show ?thesis
  proof (cases "Video track")
    case True
    have "Join ''downloads'' (ID track @ ''.mp4'') = ''downloads/'' @ ID track @ ''.mp4''"
      using assms ne [of "''.mp4''"] by (intro Join_downloads) simp_all
    with True show ?thesis by (simp add: target_def)
  next
    case False
    have "Join ''downloads'' (ID track @ ''.mp3'') = ''downloads/'' @ ID track @ ''.mp3''"
      using assms ne [of "''.mp3''"] by (intro Join_downloads) simp_all
    with False show ?thesis by (simp add: target_def)
  qed
qed

section \<open>\<^verbatim>\<open>Download\<close> of ShrutiAPI\<close>

lemma getDownloadToken_world:
  "snd (getDownloadToken s E videoID mediaType w) =
     log_event (ControlGet (apiURL s @ ''/download'') videoID mediaType) w"
  by (simp add: getDownloadToken_def Let_def split: token_outcome.splits)

lemma getDownloadToken_fs:
  "getDownloadToken s E videoID mediaType w = (r, w1) \<Longrightarrow> fs w1 = fs w"
  using getDownloadToken_world [of s E videoID mediaType w] by simp

lemma getDownloadToken_data_requests:
  "getDownloadToken s E videoID mediaType w = (r, w1) \<Longrightarrow>
     data_requests (net w1) = data_requests (net w)"
  using getDownloadToken_world [of s E videoID mediaType w]
  by (simp add: data_requests_def)

text \<open>The body of \<^verbatim>\<open>Download\<close> after a cache miss and with the directory in place.\<close>

lemma ShrutiAPI_Download_miss:
  assumes "chk (fs w) (ID track) = Inl e0" "mkdir E = None"
  shows "ShrutiAPI_Download chk s E ctx track w =
     (case getDownloadToken s E (ID track) (mediaType_of track) w of
        (Inl err, w1) \<Rightarrow> Some (Inl (ErrorfWrap ''failed to get download token'' err), w1)
      | (Inr token, w1) \<Rightarrow>
          (case downloadFile s E ctx (ID track) (mediaType_of track) token (target track) w1 of
             None \<Rightarrow> None
           | Some (Some err, w2) \<Rightarrow>
               Some (Inl (ErrorfWrap ''download failed'' err), os_Remove (target track) w2)
           | Some (None, w2) \<Rightarrow>
               (if fs w2 (target track) = None \<or> fs w2 (target track) = Some []
                then Some (Inl (ErrorsNew ''downloaded file is empty or missing''),
                           os_Remove (target track) w2)
                else Some (Inr (target track), w2))))"
  using assms
  by (auto simp: ShrutiAPI_Download_def mediaType_of_def target_def Let_def
      split: prod.splits sum.splits option.splits)

lemma ShrutiAPI_Download_total:
  "\<exists>r. ShrutiAPI_Download chk s E ctx track w = Some r"
proof (cases "chk (fs w) (ID track)")
  case (Inr path)
  then show ?thesis by (simp add: ShrutiAPI_Download_def)
next
  case (Inl e0)
  show ?thesis
  proof (cases "mkdir E")
    case (Some err)
    with Inl show ?thesis by (simp add: ShrutiAPI_Download_def)
  next
    case None
    note miss = ShrutiAPI_Download_miss [where chk = chk and w = w and track = track and s = s and ctx = ctx, OF Inl None]
    obtain r w1 where g: "getDownloadToken s E (ID track) (mediaType_of track) w = (r, w1)"
      by (metis surj_pair)
    show ?thesis
    proof (cases r)
      case (Inl err)
      with g show ?thesis by (simp add: miss)
    next
      case (Inr token)
      obtain r2 w2 where
        "downloadFile s E ctx (ID track) (mediaType_of track) token (target track) w1 = Some (r2, w2)"
        using downloadFile_total by (metis surj_pair)
      with g Inr show ?thesis
        by (cases r2) (simp_all add: miss)
    qed
  qed
qed

text \<open>
  A success is a cache hit that leaves the world as it was, or a fresh download to the
  target path: the file is there, it is not empty, and no other file has changed.
\<close>

lemma ShrutiAPI_Download_success:
  assumes "ShrutiAPI_Download chk s E ctx track w = Some (Inr p, w')"
  shows "(chk (fs w) (ID track) = Inr p \<and> w' = w) \<or>
         ((\<exists>e0. chk (fs w) (ID track) = Inl e0) \<and> p = target track \<and>
          (\<exists>c. fs w' p = Some c \<and> c \<noteq> []) \<and> (\<forall>q. q \<noteq> p \<longrightarrow> fs w' q = fs w q))"
proof (cases "chk (fs w) (ID track)")
  case (Inr path)
  with assms show ?thesis by (simp add: ShrutiAPI_Download_def)
next
  case (Inl e0)
  show ?thesis
  proof (cases "mkdir E")
    case (Some err)
    with Inl assms show ?thesis by (simp add: ShrutiAPI_Download_def)
  next
    case None
    note miss = ShrutiAPI_Download_miss [where chk = chk and w = w and track = track and s = s and ctx = ctx, OF Inl None]
    obtain r w1 where g: "getDownloadToken s E (ID track) (mediaType_of track) w = (r, w1)"
      by (metis surj_pair)
    then have f1: "fs w1 = fs w" by (rule getDownloadToken_fs)
    show ?thesis
    proof (cases r)
      case (Inl err)
      with g assms miss show ?thesis by simp
    next
      case (Inr token)
      obtain r2 w2 where
        d: "downloadFile s E ctx (ID track) (mediaType_of track) token (target track) w1 = Some (r2, w2)"
        using downloadFile_total by (metis surj_pair)
      have other: "fs w2 q = fs w q" if "q \<noteq> target track" for q
        using downloadFile_other [OF d that] f1 by simp
      from assms miss g Inr d have
        "r2 = None" "p = target track" "w' = w2"
        "\<not> (fs w2 (target track) = None \<or> fs w2 (target track) = Some [])"
        by (cases r2; simp split: if_splits)+
      with other \<open>chk (fs w) (ID track) = Inl e0\<close> show ?thesis by auto
    qed
  qed
qed

text \<open>
  A failure has either happened before any data request, with no file touched, or has
  removed the target file.
\<close>

lemma ShrutiAPI_Download_failure:
  assumes "ShrutiAPI_Download chk s E ctx track w = Some (Inl e, w')"
  shows "(fs w' = fs w \<and> data_requests (net w') = data_requests (net w)) \<or>
         fs w' (target track) = None"
proof (cases "chk (fs w) (ID track)")
  case (Inr path)
  with assms show ?thesis by (simp add: ShrutiAPI_Download_def)
next
  case (Inl e0)
  show ?thesis
  proof (cases "mkdir E")
    case (Some err)
    with Inl assms show ?thesis by (auto simp: ShrutiAPI_Download_def)
  next
    case None
    note miss = ShrutiAPI_Download_miss [where chk = chk and w = w and track = track and s = s and ctx = ctx, OF Inl None]
    obtain r w1 where g: "getDownloadToken s E (ID track) (mediaType_of track) w = (r, w1)"
      by (metis surj_pair)
    show ?thesis
    proof (cases r)
      case (Inl err)
      with g assms miss have "w' = w1" by simp
      with getDownloadToken_fs [OF g] getDownloadToken_data_requests [OF g]
      show ?thesis by simp
    next
      case (Inr token)
      obtain r2 w2 where
        d: "downloadFile s E ctx (ID track) (mediaType_of track) token (target track) w1 = Some (r2, w2)"
        using downloadFile_total by (metis surj_pair)
      from assms miss g Inr d have "w' = os_Remove (target track) w2"
        by (cases r2) (auto split: if_splits)
      then show ?thesis by simp
    qed
  qed
qed

text \<open>
  While the context is quiet and reads and writes succeed, the loop goes on; at the
  first poll that finds the context done it stops, before the read of that pass.
\<close>

lemma stream_loop_abort:
  assumes "\<forall>j<length pre. ctx (k + j) = None \<and> write_res E (k + j) = None"
    and "\<forall>x\<in>set pre. snd x = RdOk"
    and "ctx (k + length pre) = Some e"
  shows "fst (stream_loop ctx E p k (pre @ rest) w) = Some e \<and>
         net (snd (stream_loop ctx E p k (pre @ rest) w)) =
           net w @ replicate (length pre) BodyRead"
  using assms
proof (induction pre arbitrary: k w)
  case Nil
  then show ?case by (cases rest) auto
next
  case (Cons x pre)
  obtain d where x: "x = (d, RdOk)"
    using Cons.prems(2) by (cases x) auto
  from Cons.prems(1) have now: "ctx k = None" "write_res E k = None"
    by force+
  have later: "\<forall>j<length pre. ctx (Suc k + j) = None \<and> write_res E (Suc k + j) = None"
  proof (intro allI impI)
    fix j assume "j < length pre"
    then have "Suc j < length (x # pre)" by simp
    with Cons.prems(1) have "ctx (k + Suc j) = None \<and> write_res E (k + Suc j) = None"
      by blast
    then show "ctx (Suc k + j) = None \<and> write_res E (Suc k + j) = None" by simp
  qed
  from Cons.prems(2) have ok: "\<forall>x\<in>set pre. snd x = RdOk" by simp
  from Cons.prems(3) have fired: "ctx (Suc k + length pre) = Some e" by simp
  define w2 where "w2 = (if d \<noteq> [] then file_Write p d (log_event BodyRead w)
                         else log_event BodyRead w)"
  have step: "stream_loop ctx E p k (x # pre @ rest) w =
                stream_loop ctx E p (Suc k) (pre @ rest) w2"
    using now by (simp add: x w2_def Let_def)
  have n2: "net w2 = net w @ [BodyRead]"
    by (simp add: w2_def)
  from Cons.IH [OF later ok fired, of w2] n2 show ?case
    by (simp add: step replicate_app_Cons_same)
qed

section \<open>\<^verbatim>\<open>Download\<close> of Youtubify\<close>

lemma file_Write_target [simp]:
  "fs (file_Write p d w) p = Some (case fs w p of None \<Rightarrow> d | Some old \<Rightarrow> old @ d)"
  by (simp add: file_Write_def)

lemma io_Copy_exists:
  "fs w p \<noteq> None \<Longrightarrow> fs (snd (io_Copy E p k b w)) p \<noteq> None"
proof (induction b arbitrary: k w)
  case Nil
  then show ?case by simp
next
  case (Cons x b)
  obtain d r where x: "x = (d, r)" by (cases x)
  from Cons show ?case
    by (cases r) (auto simp: x Let_def split: option.splits)
qed

lemma downloadAudio_total: "\<exists>r. downloadAudio E videoID w = Some r"
proof -
  obtain r w1 where
    "client_do defaultCheckRedirect (srv E)
       (apiBase @ ''/download/audio?video_id='' @ videoID
          @ ''&mode=download&no_redirect=1&api_key='' @ api_key E) [] w = Some (r, w1)"
    using client_do_total [of defaultCheckRedirect, OF defaultCheckRedirect_cap]
    by (metis surj_pair)
  then show ?thesis
    by (cases r) (auto simp: downloadAudio_def Let_def split: option.splits prod.splits)
qed

text \<open>A download that succeeds returns the \<^verbatim>\<open>mp3\<close> path, and the file is there.\<close>

lemma downloadAudio_success:
  assumes "downloadAudio E videoID w = Some (Inr p, w')"
  shows "p = ''downloads/'' @ videoID @ ''.mp3'' \<and> fs w' p \<noteq> None"
proof (cases "fs w (''downloads/'' @ videoID @ ''.mp3'') \<noteq> None")
  case True
  with assms show ?thesis by (auto simp: downloadAudio_def)
next
  case False
  have copy: "fs (snd (io_Copy E (''downloads/'' @ videoID @ ''.mp3'') 0 b
                   (os_Create (''downloads/'' @ videoID @ ''.mp3'') w1)))
                (''downloads/'' @ videoID @ ''.mp3'') \<noteq> None" for b w1
    by (rule io_Copy_exists) (simp add: os_Create_def)
  from assms False show ?thesis
    using copy
    by (auto simp: downloadAudio_def Let_def
        split: option.splits prod.splits sum.splits if_splits)
      (metis snd_conv)+
qed

section \<open>Evaluation at concrete inputs\<close>

lemmas run_defs =
  ShrutiAPI_Download_def getDownloadToken_def log_event_def resty_IsError_def
  resty_IsSuccess_def downloadFile_def client_do.simps shruti_def Join_def Clean_def
  clean_elem_def os_Create_def file_Write_def os_Remove_def streamURL_def CheckRedirect_def
  defaultCheckRedirect_def Youtubify_Download_def downloadAudio_def is_ctx_err_def Let_def
  mediaType_of_def target_def apiBase_def checkDownloadedFile_def good_env_def
  empty_world_def audio_track_def video_track_def never_done_def canceled_after_def
  no_cache_def youtubify_url_def youtubify_done_def shruti_done_def

section \<open>What ShrutiAPI does where Youtubify does not\<close>

text \<open>
  After a cache miss, whatever \<^verbatim>\<open>downloadFile\<close> leaves behind, a file that is missing
  or empty makes \<^verbatim>\<open>Download\<close> fail, and the target path is free afterwards.
\<close>

lemma ShrutiAPI_Download_verifies:
  assumes "chk (fs w) (ID track) = Inl e0" "mkdir E = None"
    and "getDownloadToken s E (ID track) (mediaType_of track) w = (Inr token, w1)"
    and "downloadFile s E ctx (ID track) (mediaType_of track) token (target track) w1 =
           Some (None, w2)"
    and "fs w2 (target track) = None \<or> fs w2 (target track) = Some []"
  shows "ShrutiAPI_Download chk s E ctx track w =
           Some (Inl (ErrorsNew ''downloaded file is empty or missing''),
                 os_Remove (target track) w2) \<and>
         fs (os_Remove (target track) w2) (target track) = None"
  using assms(3-5)
  by (auto simp: ShrutiAPI_Download_miss [where chk = chk and w = w and track = track,
        OF assms(1,2)])

text \<open>The two environments in which Youtubify fills its cache with a bad file.\<close>

lemma ShrutiAPI_removes_partial_file:
  "\<exists>e w'. ShrutiAPI_Download no_cache shruti truncated_env never_done audio_track empty_world =
            Some (Inl e, w') \<and> fs w' = Map.empty"
  by (simp add: run_defs truncated_env_def)

lemma ShrutiAPI_rejects_empty_file:
  "\<exists>w'. ShrutiAPI_Download no_cache shruti empty_body_env never_done audio_track empty_world =
          Some (Inl (ErrorsNew ''downloaded file is empty or missing''), w') \<and>
        fs w' = Map.empty"
  by (simp add: run_defs empty_body_env_def)

text \<open>
  The wrapping that \<^verbatim>\<open>Download\<close> adds keeps a context error in reach of
  \<^verbatim>\<open>errors.Is\<close>.
\<close>

lemma ShrutiAPI_Download_token_error:
  assumes "chk (fs w) (ID track) = Inl e0" "mkdir E = None"
    and "ctrl E (ID track) (mediaType_of track) = TokenErr err"
  shows "\<exists>e w'. ShrutiAPI_Download chk s E ctx track w = Some (Inl e, w') \<and>
           is_ctx_err e = is_ctx_err err"
  using assms(3)
  by (auto simp: ShrutiAPI_Download_miss [where chk = chk and w = w and track = track,
        OF assms(1,2)] getDownloadToken_def Let_def is_ctx_err_def)

text \<open>
  The streaming loop of \<^verbatim>\<open>downloadFile\<close> polls the context before each read: when the
  first polls find it quiet while the reads and writes of those passes succeed, and the
  next poll finds it done, the call returns the error of the context, having read
  exactly the chunks before that poll and none of the rest.
\<close>

lemma downloadFile_stops_when_context_done:
  assumes "new_request E (streamURL s videoID mediaType token) = None"
    and "client_do CheckRedirect (srv E) (streamURL s videoID mediaType token) [] w =
           Some (Inr (200, pre @ rest), w1)"
    and "create E filePath = None"
    and "\<forall>j<length pre. ctx j = None \<and> write_res E j = None"
    and "\<forall>x\<in>set pre. snd x = RdOk"
    and "ctx (length pre) = Some e"
  shows "\<exists>w'. downloadFile s E ctx videoID mediaType token filePath w = Some (Some e, w') \<and>
              net w' = net w1 @ replicate (length pre) BodyRead"
proof -
  let ?r = "stream_loop ctx E filePath 0 (pre @ rest) (os_Create filePath w1)"
  from assms(4-6) have "fst ?r = Some e \<and>
      net (snd ?r) = net (os_Create filePath w1) @ replicate (length pre) BodyRead"
    by (intro stream_loop_abort) simp_all
  then have "?r = (Some e, snd ?r)" "net (snd ?r) = net w1 @ replicate (length pre) BodyRead"
    by (simp_all add: prod_eq_iff)
  moreover from assms(1-3)
  have "downloadFile s E ctx videoID mediaType token filePath w = Some ?r"
    by (simp add: downloadFile_def)
  ultimately show ?thesis by metis
qed

text \<open>With a context that is done at its second poll, one chunk is read and then no more.\<close>

lemma ShrutiAPI_stops_after_first_chunk:
  "\<exists>w'. downloadFile shruti good_env (canceled_after 1) ''abc123'' ''audio'' ''T1''
           ''downloads/abc123.mp3'' empty_world = Some (Some ContextCanceled, w') \<and>
         net w' = [DataGet (streamURL shruti ''abc123'' ''audio'' ''T1''), BodyRead]"
  by (simp add: run_defs)

text \<open>
  After a cache miss a success returns the path joined from \<^verbatim>\<open>downloads\<close> and the
  identifier, with the extension of the media kind.
\<close>

lemma ShrutiAPI_fresh_download_path:
  assumes "ShrutiAPI_Download chk s E ctx track w = Some (Inr p, w')"
    and "chk (fs w) (ID track) = Inl e0"
  shows "p = Join ''downloads'' (ID track @ (if Video track then ''.mp4'' else ''.mp3''))"
  using ShrutiAPI_Download_success [OF assms(1)] assms(2)
  by (auto simp: target_def)

text \<open>
  A request error in which \<^verbatim>\<open>errors.Is\<close> finds a context error is returned as it is,
  any other inside the wrapping of the phase.
\<close>

lemma request_error_passthrough:
  "(ctrl E videoID mediaType = TokenErr err \<longrightarrow>
      fst (getDownloadToken s E videoID mediaType w) =
        Inl (if is_ctx_err err then err else ErrorfWrap ''api request failed'' err)) \<and>
   (new_request E (streamURL s videoID mediaType token) = None \<and>
    client_do CheckRedirect (srv E) (streamURL s videoID mediaType token) [] w =
      Some (Inl err', w1) \<longrightarrow>
      downloadFile s E ctx videoID mediaType token filePath w =
        Some (Some (if is_ctx_err err' then err' else ErrorfWrap ''request failed'' err'), w1))"
  by (auto simp: getDownloadToken_def downloadFile_def Let_def)

section \<open>Claims\<close>

text \<open>
  C1 at a failing input. The body of Youtubify's response breaks after its first chunk:
  \<^verbatim>\<open>Download\<close> returns the error of the read and leaves the three bytes it has written
  in the cache file. A later call, for which every request would succeed, takes that
  file for the cached download and returns its path without any request.
\<close>

theorem Youtubify_leaves_partial_file:
  "Youtubify_Download truncated_env never_done audio_track empty_world =
     Some (Inl (LibError ''unexpected EOF''), truncated_world) \<and>
   fs truncated_world ''downloads/abc123.mp3'' = Some ''abc'' \<and>
   Youtubify_Download good_env never_done audio_track truncated_world =
     Some (Inr ''downloads/abc123.mp3'', truncated_world)"
  by (simp add: run_defs truncated_env_def truncated_world_def)

text \<open>
  C2 at a failing input. The context handed to Youtubify's \<^verbatim>\<open>Download\<close> is done before
  the first read of the body: the call does not poll it, reads and writes every chunk,
  and returns the path as a success, where the transfer should have stopped with the
  error of the context before the first read.
\<close>

theorem Youtubify_ignores_context:
  "canceled_after 0 0 = Some ContextCanceled \<and>
   Youtubify_Download good_env (canceled_after 0) audio_track empty_world =
     Some (Inr ''downloads/abc123.mp3'', youtubify_done) \<and>
   net youtubify_done = [DataGet youtubify_url, BodyRead, BodyRead]"
  by (simp add: run_defs)

text \<open>
  C3. After a first success, a second \<^verbatim>\<open>Download\<close> for the same track identifier
  returns the same path and leaves the world as it is, the log of network requests
  included: whatever the environment and the context of the second call are. For
  ShrutiAPI the cache check is \<open>checkDownloadedFile\<close>.
\<close>

theorem second_download_from_cache:
  "(ShrutiAPI_Download checkDownloadedFile s E ctx track w = Some (Inr p, w1) \<and>
    ID track' = ID track \<longrightarrow>
      ShrutiAPI_Download checkDownloadedFile s' E' ctx' track' w1 = Some (Inr p, w1)) \<and>
   (Youtubify_Download F ctx track v = Some (Inr q, v1) \<and> ID track' = ID track \<longrightarrow>
      Youtubify_Download F' ctx' track' v1 = Some (Inr q, v1))"
proof (intro conjI impI)
  assume a: "ShrutiAPI_Download checkDownloadedFile s E ctx track w = Some (Inr p, w1) \<and>
    ID track' = ID track"
  let ?mp3 = "Join ''downloads'' (ID track @ ''.mp3'')"
  let ?mp4 = "Join ''downloads'' (ID track @ ''.mp4'')"
  from a have first: "ShrutiAPI_Download checkDownloadedFile s E ctx track w = Some (Inr p, w1)"
    by simp
  have hit: "checkDownloadedFile (fs w1) (ID track) = Inr p"
    using ShrutiAPI_Download_success [OF first]
  proof (elim disjE conjE exE)
    assume "checkDownloadedFile (fs w) (ID track) = Inr p" "w1 = w"
    then show ?thesis by simp
  next
    fix e0 c
    assume miss: "checkDownloadedFile (fs w) (ID track) = Inl e0"
      and p: "p = target track"
      and there: "fs w1 p = Some c"
      and other: "\<forall>q. q \<noteq> p \<longrightarrow> fs w1 q = fs w q"
    from miss have absent: "fs w ?mp3 = None" "fs w ?mp4 = None"
      by (auto simp: checkDownloadedFile_def split: if_splits)
    show ?thesis
    proof (cases "Video track")
      case False
      with p have "p = ?mp3" by (simp add: target_def)
      with there show ?thesis by (simp add: checkDownloadedFile_def)
    next
      case True
      with p have p4: "p = ?mp4" by (simp add: target_def)
      show ?thesis
      proof (cases "?mp3 = p")
        case True
        with there show ?thesis by (simp add: checkDownloadedFile_def)
      next
        case False
        with other absent have "fs w1 ?mp3 = None" by simp
        with there p4 show ?thesis by (simp add: checkDownloadedFile_def)
      qed
    qed
  qed
  with a show "ShrutiAPI_Download checkDownloadedFile s' E' ctx' track' w1 = Some (Inr p, w1)"
    by (simp add: ShrutiAPI_Download_def)
next
  assume "Youtubify_Download F ctx track v = Some (Inr q, v1) \<and> ID track' = ID track"
  then have d: "downloadAudio F (ID track) v = Some (Inr q, v1)" and i: "ID track' = ID track"
    by (simp_all add: Youtubify_Download_def)
  from downloadAudio_success [OF d]
  have "q = ''downloads/'' @ ID track @ ''.mp3''" "fs v1 q \<noteq> None"
    by blast+
  then show "Youtubify_Download F' ctx' track' v1 = Some (Inr q, v1)"
    by (auto simp: Youtubify_Download_def downloadAudio_def i)
qed

theorem second_download_from_cache_witness:
  "ShrutiAPI_Download checkDownloadedFile shruti good_env never_done audio_track empty_world =
     Some (Inr ''downloads/abc123.mp3'', shruti_done) \<and>
   Youtubify_Download good_env never_done audio_track empty_world =
     Some (Inr ''downloads/abc123.mp3'', youtubify_done) \<and>
   ID video_track = ID audio_track \<and>
   ShrutiAPI_Download checkDownloadedFile shruti truncated_env (canceled_after 0) video_track
     shruti_done = Some (Inr ''downloads/abc123.mp3'', shruti_done) \<and>
   Youtubify_Download truncated_env (canceled_after 0) video_track youtubify_done =
     Some (Inr ''downloads/abc123.mp3'', youtubify_done)"
proof -
  have h1: "ShrutiAPI_Download checkDownloadedFile shruti good_env never_done audio_track
              empty_world = Some (Inr ''downloads/abc123.mp3'', shruti_done)"
    by (simp add: run_defs)
  have h2: "Youtubify_Download good_env never_done audio_track empty_world =
              Some (Inr ''downloads/abc123.mp3'', youtubify_done)"
    by (simp add: run_defs)
  have h3: "ID video_track = ID audio_track"
    by (simp add: video_track_def audio_track_def)
  from second_download_from_cache [of shruti good_env never_done audio_track empty_world
      "''downloads/abc123.mp3''" shruti_done video_track shruti truncated_env
      "canceled_after 0" good_env empty_world "''downloads/abc123.mp3''" youtubify_done
      truncated_env]
    h1 h2 h3
  show ?thesis by simp
qed

text \<open>
  C4. After a cache miss, with the directory in place: when the control endpoint answers
  with a status that is not a success, or with an empty token, \<^verbatim>\<open>Download\<close> fails with
  the error of the token request; the control request is the only network request that
  was made, and no file has changed.
\<close>

theorem token_failure_stops_download:
  assumes "chk (fs w) (ID track) = Inl e0"
    and "mkdir E = None"
    and "ctrl E (ID track) (mediaType_of track) = TokenResp status tok"
    and "\<not> resty_IsSuccess status \<or> tok = []"
  shows "\<exists>e w'. ShrutiAPI_Download chk s E ctx track w =
                  Some (Inl (ErrorfWrap ''failed to get download token'' e), w') \<and>
           (e = ErrorfStatus ''api returned status'' status \<or>
            e = ErrorsNew ''empty download token received'') \<and>
           net w' = net w @ [ControlGet (apiURL s @ ''/download'') (ID track) (mediaType_of track)] \<and>
           fs w' = fs w"
  using assms(3,4)
  by (auto simp: ShrutiAPI_Download_miss [where chk = chk and w = w and track = track,
        OF assms(1,2)] getDownloadToken_def Let_def)

theorem token_failure_stops_download_witness:
  "no_cache (fs empty_world) (ID audio_track) = Inl (ErrorsNew ''file not found'') \<and>
   mkdir empty_token_env = None \<and>
   ctrl empty_token_env (ID audio_track) (mediaType_of audio_track) = TokenResp 200 [] \<and>
   (\<exists>e w'. ShrutiAPI_Download no_cache shruti empty_token_env never_done audio_track empty_world =
              Some (Inl (ErrorfWrap ''failed to get download token'' e), w') \<and>
            (e = ErrorfStatus ''api returned status'' 200 \<or>
             e = ErrorsNew ''empty download token received'') \<and>
            net w' = net empty_world @
              [ControlGet (apiURL shruti @ ''/download'') (ID audio_track)
                 (mediaType_of audio_track)] \<and>
            fs w' = fs empty_world)"
proof -
  have h1: "no_cache (fs empty_world) (ID audio_track) = Inl (ErrorsNew ''file not found'')"
    by (simp add: no_cache_def)
  have h2: "mkdir empty_token_env = None"
    by (simp add: empty_token_env_def good_env_def)
  have h3: "ctrl empty_token_env (ID audio_track) (mediaType_of audio_track) = TokenResp 200 []"
    by (simp add: empty_token_env_def good_env_def)
  have h4: "\<not> resty_IsSuccess 200 \<or> ([]::string) = []"
    by simp
  from token_failure_stops_download [where chk = no_cache and s = shruti and
      ctx = never_done, OF h1 h2 h3 h4] h1 h2 h3
  show ?thesis by simp
qed

text \<open>
  C5 at a failing input. Youtubify's response is 200 with an empty body: \<^verbatim>\<open>Download\<close>
  returns the path, and the file at that path is empty.
\<close>

theorem Youtubify_accepts_empty_file:
  "Youtubify_Download empty_body_env never_done audio_track empty_world =
     Some (Inr ''downloads/abc123.mp3'', empty_file_world) \<and>
   fs empty_file_world ''downloads/abc123.mp3'' = Some []"
  by (simp add: run_defs empty_body_env_def empty_file_world_def)

text \<open>
  C6 at a failing input. Youtubify's \<^verbatim>\<open>Download\<close> of a video track succeeds with the
  path \<^verbatim>\<open>downloads/abc123.mp3\<close>, where the path of a video is
  \<^verbatim>\<open>downloads/abc123.mp4\<close>; for the same track and the same answers ShrutiAPI's
  \<^verbatim>\<open>Download\<close> returns that path.
\<close>

theorem Youtubify_video_track_gets_mp3:
  "Video video_track \<and>
   Youtubify_Download good_env never_done video_track empty_world =
     Some (Inr ''downloads/abc123.mp3'', youtubify_done) \<and>
   map_option fst
     (ShrutiAPI_Download checkDownloadedFile shruti good_env never_done video_track empty_world) =
     Some (Inr ''downloads/abc123.mp4'')"
  by (simp add: run_defs)

text \<open>
  C7. The data request of \<^verbatim>\<open>downloadFile\<close> follows redirects up to a fixed cap: whatever
  the servers answer, the call returns, having sent at most 10 requests; and when the
  first \<open>n\<close> responses on the way are redirects, with \<open>n\<close> at least 10, it returns the
  failure \<^verbatim>\<open>too many redirects\<close> (inside the client's URL error and the wrapping of
  \<^verbatim>\<open>downloadFile\<close>) and has created no file.
\<close>

theorem redirect_cap:
  "(\<exists>r w'. downloadFile s E ctx videoID mediaType token filePath w = Some (r, w') \<and>
            data_requests (net w') \<le> data_requests (net w) + 10) \<and>
   (new_request E (streamURL s videoID mediaType token) = None \<and>
    redirects (srv E) (streamURL s videoID mediaType token) n \<and> 10 \<le> n \<longrightarrow>
      (\<exists>w'. downloadFile s E ctx videoID mediaType token filePath w =
               Some (Some (ErrorfWrap ''request failed''
                      (LibWrap ''Get'' (ErrorsNew ''too many redirects''))), w') \<and>
             fs w' = fs w))"
proof (intro conjI impI)
  obtain r w' where d: "downloadFile s E ctx videoID mediaType token filePath w = Some (r, w')"
    using downloadFile_total by (metis surj_pair)
  with downloadFile_data_requests [OF d]
  show "\<exists>r w'. downloadFile s E ctx videoID mediaType token filePath w = Some (r, w') \<and>
            data_requests (net w') \<le> data_requests (net w) + 10"
    by blast
next
  assume a: "new_request E (streamURL s videoID mediaType token) = None \<and>
    redirects (srv E) (streamURL s videoID mediaType token) n \<and> 10 \<le> n"
  then obtain w1 where
    c: "client_do CheckRedirect (srv E) (streamURL s videoID mediaType token) [] w =
          Some (Inl (LibWrap ''Get'' (ErrorsNew ''too many redirects'')), w1)"
    using client_do_redirects [of "srv E" "streamURL s videoID mediaType token" n "[]" w]
    by auto
  then have "fs w1 = fs w" by (rule client_do_fs)
  with a c show "\<exists>w'. downloadFile s E ctx videoID mediaType token filePath w =
               Some (Some (ErrorfWrap ''request failed''
                      (LibWrap ''Get'' (ErrorsNew ''too many redirects''))), w') \<and>
             fs w' = fs w"
    by (simp add: downloadFile_def is_ctx_err_def)
qed

theorem redirect_cap_witness:
  "new_request redirect_loop_env (streamURL shruti ''abc123'' ''audio'' ''T1'') = None \<and>
   redirects (srv redirect_loop_env) (streamURL shruti ''abc123'' ''audio'' ''T1'') 11 \<and>
   (10::nat) \<le> 11 \<and>
   (\<exists>w'. downloadFile shruti redirect_loop_env never_done
            ''abc123'' ''audio'' ''T1'' ''downloads/abc123.mp3'' empty_world =
            Some (Some (ErrorfWrap ''request failed''
                   (LibWrap ''Get'' (ErrorsNew ''too many redirects''))), w') \<and>
          fs w' = fs empty_world)"
  using redirect_cap [of shruti redirect_loop_env never_done
      "''abc123''" "''audio''" "''T1''" "''downloads/abc123.mp3''" empty_world 11]
  by (simp add: redirect_loop_env_def good_env_def eval_nat_numeral)

text \<open>
  C8. Both providers are download-only: \<^verbatim>\<open>IsValid\<close> is false for every query, and
  \<^verbatim>\<open>GetTracks\<close> returns no tracks but an error that says so.
\<close>

theorem download_only_providers:
  "\<not> ShrutiAPI_IsValid s query \<and>
   ShrutiAPI_GetTracks s query video = Inl (ErrorsNew ''shrutiapi is a download-only platform'') \<and>
   \<not> Youtubify_IsValid query \<and>
   Youtubify_GetTracks query = Inl (ErrorsNew ''Youtubify is a direct download platform'')"
  by (simp add: ShrutiAPI_IsValid_def ShrutiAPI_GetTracks_def Youtubify_IsValid_def
      Youtubify_GetTracks_def)

text \<open>
  C9 at a failing input. The caller's context is never done, and the provider is too
  slow: the token request and the data request end in the timeout of their own client.
  \<^verbatim>\<open>getDownloadToken\<close> and \<^verbatim>\<open>downloadFile\<close> take that error for a context error and
  return it without the wrapping of the phase, and \<^verbatim>\<open>errors.Is\<close> finds
  \<^verbatim>\<open>context.DeadlineExceeded\<close> in what \<^verbatim>\<open>Download\<close> returns, exactly as it does when the
  deadline of the caller's context has elapsed: the check does not tell this failure of
  the provider from a cancellation.
\<close>

theorem client_timeout_taken_for_cancellation:
  "never_done = (\<lambda>k. None) \<and>
   fst (getDownloadToken shruti slow_env ''abc123'' ''audio'' empty_world) =
     Inl (LibWrap ''Get'' client_timeout) \<and>
   map_option fst
     (downloadFile shruti slow_env never_done ''abc123'' ''audio'' ''T1''
        ''downloads/abc123.mp3'' empty_world) =
     Some (Some (LibWrap ''Get'' client_timeout)) \<and>
   map_option fst
     (ShrutiAPI_Download no_cache shruti slow_env never_done audio_track empty_world) =
     Some (Inl (ErrorfWrap ''failed to get download token'' (LibWrap ''Get'' client_timeout))) \<and>
   errors_Is (ErrorfWrap ''failed to get download token'' (LibWrap ''Get'' client_timeout))
     ContextDeadlineExceeded \<and>
   fst (getDownloadToken shruti deadline_env ''abc123'' ''audio'' empty_world) =
     Inl ContextDeadlineExceeded \<and>
   errors_Is ContextDeadlineExceeded ContextDeadlineExceeded"
  by (simp add: run_defs slow_env_def client_timeout_def deadline_env_def)

text \<open>
  C10. For both providers \<^verbatim>\<open>IsDownloadSupported(source)\<close> holds exactly when the source
  is the YouTube platform; the provider's own name is refused, as any other name is,
  when it is not the name of the YouTube platform.
\<close>

theorem download_supported_iff_youtube:
  "ShrutiAPI_IsDownloadSupported PlatformYouTube s source = (source = PlatformYouTube) \<and>
   Youtubify_IsDownloadSupported PlatformYouTube source = (source = PlatformYouTube) \<and>
   (PlatformYouTube \<noteq> ShrutiAPI_Name shruti \<longrightarrow>
      \<not> ShrutiAPI_IsDownloadSupported PlatformYouTube shruti (ShrutiAPI_Name shruti)) \<and>
   (PlatformYouTube \<noteq> Youtubify_Name \<longrightarrow>
      \<not> Youtubify_IsDownloadSupported PlatformYouTube Youtubify_Name)"
  by (auto simp: ShrutiAPI_IsDownloadSupported_def Youtubify_IsDownloadSupported_def)

theorem download_supported_iff_youtube_witness:
  "''YouTube'' \<noteq> ShrutiAPI_Name shruti \<and> ''YouTube'' \<noteq> Youtubify_Name \<and>
   ShrutiAPI_IsDownloadSupported ''YouTube'' shruti ''YouTube'' \<and>
   Youtubify_IsDownloadSupported ''YouTube'' ''YouTube'' \<and>
   \<not> ShrutiAPI_IsDownloadSupported ''YouTube'' shruti (ShrutiAPI_Name shruti) \<and>
   \<not> Youtubify_IsDownloadSupported ''YouTube'' Youtubify_Name"
  using download_supported_iff_youtube [of "''YouTube''" shruti "''YouTube''"]
  by (simp add: ShrutiAPI_Name_def shruti_def PlatformShrutiAPI_def Youtubify_Name_def
      PlatformYoutubify_def)

end
